theory Spec2Isabelle
  imports Main "HOL-Library.Word" "HOL-Library.Sublist"
begin

unbundle bit_operations_syntax

section \<open>Values, errors and diagnostics\<close>

text \<open>
  The program is Python 3. A \<^verbatim>\<open>bytes\<close> object is a list of 8-bit words, a Python
  integer is an \<^typ>\<open>int\<close>, and a value that is either an integer or \<^verbatim>\<open>None\<close> is an
  \<^typ>\<open>int option\<close>. A Python \<^verbatim>\<open>str\<close> is an Isabelle \<^typ>\<open>string\<close>, which holds the
  code points below 256.
\<close>

type_synonym byte = "8 word"
type_synonym bytes = "byte list"
type_synonym pyint = "int option"

text \<open>The exceptions the modelled functions can raise; \<^verbatim>\<open>sys.exit()\<close> raises SystemExit.\<close>

datatype error =
    SystemExit
  | TypeError
  | IndexError
  | StructError
  | ValueError
  | OSError
  | UnicodeDecodeError
  | ParseError

text \<open>
  Every \<^verbatim>\<open>print\<close> of the source is one diagnostic, carrying the objects that the
  message is formatted from.
\<close>

datatype diag =
    Invalid_byte_string bytes
  | Invalid_endian_setting "bytes option"
  | Marker_expected_not_found string bytes
  | Invalid_Exif_header bytes
  | Sample_encoded_value_incorrect pyint
  | No_closing_tag_found

text \<open>The values stored in the metadata dictionary: strings, integers and \<^verbatim>\<open>None\<close>.\<close>

datatype pyval = StrVal string | IntVal int | NoneVal

definition bytes_of :: "string \<Rightarrow> bytes" where
  "bytes_of s = map of_char s"

section \<open>The file handle, standard output and the metadata dictionary\<close>

record filehandle =
  data :: bytes
  pos :: nat

record run = filehandle +
  out :: "diag list"

record extraction = run +
  meta_dict :: "string \<rightharpoonup> (pyval \<times> string \<times> pyval \<times> pyval)"

text \<open>
  \<open>subifd_queue\<close> is the deque of \<^verbatim>\<open>read_app1_exif\<close>. \<open>visited\<close> is not a variable
  of the source: it lists the values of \<^verbatim>\<open>offset_ifd\<close> at which the two loops of
  \<^verbatim>\<open>read_app1_exif\<close> seek and call \<^verbatim>\<open>read_ifd\<close>, in the order of the calls.
\<close>

record walker = extraction +
  subifd_queue :: "pyint list"
  visited :: "int list"

text \<open>
  \<^verbatim>\<open>read(n)\<close> returns the next \<open>n\<close> bytes, or fewer at the end of the file, and
  advances the position by the number of bytes returned.
\<close>

definition fh_read :: "nat \<Rightarrow> 'a filehandle_scheme \<Rightarrow> bytes \<times> 'a filehandle_scheme" where
  "fh_read n fh =
     (let bs = take n (drop (pos fh) (data fh))
      in (bs, fh\<lparr>pos := pos fh + length bs\<rparr>))"

definition fh_seek :: "nat \<Rightarrow> 'a filehandle_scheme \<Rightarrow> 'a filehandle_scheme" where
  "fh_seek off fh = fh\<lparr>pos := off\<rparr>"

text \<open>\<^verbatim>\<open>seek(delta, 1)\<close>: a negative target position raises OSError.\<close>

definition fh_seek_cur :: "int \<Rightarrow> 'a filehandle_scheme \<Rightarrow> error + 'a filehandle_scheme" where
  "fh_seek_cur delta fh =
     (if int (pos fh) + delta < 0 then Inl OSError
      else Inr (fh\<lparr>pos := nat (int (pos fh) + delta)\<rparr>))"

definition emit :: "diag list \<Rightarrow> 'a run_scheme \<Rightarrow> 'a run_scheme" where
  "emit ds st = st\<lparr>out := out st @ ds\<rparr>"

section \<open>ExifDecoder\<close>

text \<open>The attribute \<^verbatim>\<open>self.byteorder\<close> is \<^verbatim>\<open>'<'\<close> or \<^verbatim>\<open>'>'\<close>.\<close>

datatype byteorder = LittleEndian | BigEndian

text \<open>\<^verbatim>\<open>struct.unpack\<close> with the format \<^verbatim>\<open>H\<close> or \<^verbatim>\<open>I\<close> and a byte order prefix.\<close>

definition be_uint :: "bytes \<Rightarrow> int" where
  "be_uint bs = foldl (\<lambda>acc b. acc * 256 + uint b) 0 bs"

definition unpack_uint :: "byteorder \<Rightarrow> bytes \<Rightarrow> int" where
  "unpack_uint bo bs = (case bo of BigEndian \<Rightarrow> be_uint bs | LittleEndian \<Rightarrow> be_uint (rev bs))"

text \<open>
  \<^verbatim>\<open>set_byteorder(bytealign, filename)\<close>. The argument \<open>filename\<close> is \<open>None\<close> when no
  file name is given, and otherwise what opening the named file gives: an error or the
  content of the file.
\<close>

definition set_byteorder ::
  "bytes option \<Rightarrow> (error + bytes) option \<Rightarrow> error + (byteorder \<times> diag list)" where
  "set_byteorder bytealign filename =
     (case (case filename of
              None \<Rightarrow> Inr bytealign
            | Some (Inl e) \<Rightarrow> Inl e
            | Some (Inr content) \<Rightarrow> Inr (Some (take 2 (drop 12 content)))) of
        Inl e \<Rightarrow> Inl e
      | Inr bytealign' \<Rightarrow>
          Inr (if bytealign' = Some (bytes_of ''II'') then LittleEndian else BigEndian,
               if bytealign' \<notin> set [Some (bytes_of ''II''), Some (bytes_of ''MM'')]
               then [Invalid_endian_setting bytealign'] else []))"

text \<open>\<^verbatim>\<open>ExifDecoder(endian)\<close>: the byte order of the new decoder and what was printed.\<close>

definition ExifDecoder :: "bytes option \<Rightarrow> error + (byteorder \<times> diag list)" where
  "ExifDecoder endian =
     (case endian of
        None \<Rightarrow> Inr (LittleEndian, [])
      | Some b \<Rightarrow> set_byteorder (Some b) None)"

text \<open>
  \<^verbatim>\<open>decode_bytes\<close>: the value returned (\<open>None\<close> when the function falls off its end
  after printing) and what was printed.
\<close>

definition decode_bytes :: "byteorder \<Rightarrow> bytes \<Rightarrow> pyint \<times> diag list" where
  "decode_bytes bo byte_string =
     (if length byte_string = 0 then (Some 0, [])
      else if length byte_string = 2 then (Some (unpack_uint bo byte_string), [])
      else if length byte_string = 4 then (Some (unpack_uint bo byte_string), [])
      else (None, [Invalid_byte_string byte_string]))"

section \<open>Segment classification (jpegdata.seginfo)\<close>

record segment_info =
  name :: string
  has_data :: bool
  has_meta :: bool

definition segdata :: "(bytes \<times> segment_info) list" where
  "segdata =
    [([0xFF, 0x01], \<lparr>name = ''ff01'', has_data = False, has_meta = False\<rparr>),
     ([0xFF, 0xE0], \<lparr>name = ''APP0'', has_data = True, has_meta = True\<rparr>),
     ([0xFF, 0xE1], \<lparr>name = ''APP1'', has_data = True, has_meta = True\<rparr>),
     ([0xFF, 0xE2], \<lparr>name = ''APP2'', has_data = True, has_meta = True\<rparr>),
     ([0xFF, 0xE3], \<lparr>name = ''APP3'', has_data = True, has_meta = True\<rparr>),
     ([0xFF, 0xE4], \<lparr>name = ''APP4'', has_data = True, has_meta = True\<rparr>),
     ([0xFF, 0xE5], \<lparr>name = ''APP5'', has_data = True, has_meta = True\<rparr>),
     ([0xFF, 0xE6], \<lparr>name = ''APP6'', has_data = True, has_meta = True\<rparr>),
     ([0xFF, 0xE7], \<lparr>name = ''APP7'', has_data = True, has_meta = True\<rparr>),
     ([0xFF, 0xE8], \<lparr>name = ''APP8'', has_data = True, has_meta = True\<rparr>),
     ([0xFF, 0xE9], \<lparr>name = ''APP9'', has_data = True, has_meta = True\<rparr>),
     ([0xFF, 0xEA], \<lparr>name = ''APP10'', has_data = True, has_meta = True\<rparr>),
     ([0xFF, 0xEB], \<lparr>name = ''APP11'', has_data = True, has_meta = True\<rparr>),
     ([0xFF, 0xEC], \<lparr>name = ''APP12'', has_data = True, has_meta = True\<rparr>),
     ([0xFF, 0xED], \<lparr>name = ''APP13'', has_data = True, has_meta = True\<rparr>),
     ([0xFF, 0xEE], \<lparr>name = ''APP14'', has_data = True, has_meta = True\<rparr>),
     ([0xFF, 0xEF], \<lparr>name = ''APP15'', has_data = True, has_meta = True\<rparr>),
     ([0xFF, 0xFE], \<lparr>name = ''COM'', has_data = True, has_meta = False\<rparr>),
     ([0xFF, 0xC4], \<lparr>name = ''DHT'', has_data = True, has_meta = False\<rparr>),
     ([0xFF, 0xDB], \<lparr>name = ''DQT'', has_data = True, has_meta = False\<rparr>),
     ([0xFF, 0xDD], \<lparr>name = ''DRI'', has_data = True, has_meta = False\<rparr>),
     ([0xFF, 0xD9], \<lparr>name = ''EOI'', has_data = False, has_meta = False\<rparr>),
     ([0xFF, 0xD0], \<lparr>name = ''RST0'', has_data = False, has_meta = False\<rparr>),
     ([0xFF, 0xD1], \<lparr>name = ''RST1'', has_data = False, has_meta = False\<rparr>),
     ([0xFF, 0xD2], \<lparr>name = ''RST2'', has_data = False, has_meta = False\<rparr>),
     ([0xFF, 0xD3], \<lparr>name = ''RST3'', has_data = False, has_meta = False\<rparr>),
     ([0xFF, 0xD4], \<lparr>name = ''RST4'', has_data = False, has_meta = False\<rparr>),
     ([0xFF, 0xD5], \<lparr>name = ''RST5'', has_data = False, has_meta = False\<rparr>),
     ([0xFF, 0xD6], \<lparr>name = ''RST6'', has_data = False, has_meta = False\<rparr>),
     ([0xFF, 0xD7], \<lparr>name = ''RST7'', has_data = False, has_meta = False\<rparr>),
     ([0xFF, 0xC0], \<lparr>name = ''SOF0'', has_data = True, has_meta = False\<rparr>),
     ([0xFF, 0xC2], \<lparr>name = ''SOF2'', has_data = True, has_meta = False\<rparr>),
     ([0xFF, 0xD8], \<lparr>name = ''SOI'', has_data = False, has_meta = False\<rparr>),
     ([0xFF, 0xDA], \<lparr>name = ''SOS'', has_data = True, has_meta = False\<rparr>)]"

text \<open>\<^verbatim>\<open>'{:02x}'.format(char)\<close>: two lower-case hexadecimal digits.\<close>

definition hex_digit :: "nat \<Rightarrow> char" where
  "hex_digit n = ''0123456789abcdef'' ! (n mod 16)"

definition hex2 :: "byte \<Rightarrow> string" where
  "hex2 b = [hex_digit (unat b div 16), hex_digit (unat b mod 16)]"

definition seginfo :: "bytes \<Rightarrow> segment_info" where
  "seginfo segment_marker =
     (case map_of segdata segment_marker of
        Some info \<Rightarrow> info
      | None \<Rightarrow> \<lparr>name = concat (map hex2 segment_marker) @ ''?'',
                  has_data = False, has_meta = False\<rparr>)"

section \<open>The segment scanner (exiferino.segment_map)\<close>

text \<open>What one pass through the body of the \<^verbatim>\<open>while True\<close> loop ends with.\<close>

datatype 'a scan_step =
    Break "(string \<times> nat) list"
  | Continue 'a "(string \<times> nat) list"
  | Raise error

definition no_payload_markers :: "bytes list" where
  "no_payload_markers =
     [[0xFF, 0x01], [0xFF, 0xD0], [0xFF, 0xD1], [0xFF, 0xD2], [0xFF, 0xD3], [0xFF, 0xD4],
      [0xFF, 0xD5], [0xFF, 0xD6], [0xFF, 0xD7], [0xFF, 0xD8], [0xFF, 0xD9]]"

text \<open>The tag that the APP1 branch records for the identification string.\<close>

definition app1_tag :: "bytes \<Rightarrow> string" where
  "app1_tag id_str =
     (if take 6 id_str = bytes_of ''Exif'' @ [0, 0] then ''APP1-Exif''
      else if take 29 id_str = bytes_of ''http://ns.adobe.com/xap/1.0/'' @ [0] then ''APP1-XMP''
      else if take 35 id_str = bytes_of ''http://ns.adobe.com/xmp/extension/'' @ [0]
        then ''APP1-XMPext''
      else ''APP1-unknown'')"

text \<open>
  The body of the loop. After a marker of two bytes has been read the position is at
  least 2, so \<^verbatim>\<open>filepos-2\<close> and \<^verbatim>\<open>filehandle.tell()-2\<close> are natural numbers.
\<close>

definition segment_map_body ::
  "'a filehandle_scheme \<Rightarrow> (string \<times> nat) list \<Rightarrow> 'a filehandle_scheme scan_step" where
  "segment_map_body fh segments =
     (let (seg_mark, fh1) = fh_read 2 fh in
      if length seg_mark < 2 then Break segments
      else
        let seg_id = name (seginfo seg_mark);
            (fh2, segments2) =
              (if seg_id = ''APP1'' then
                 (let filepos = pos fh1;
                      (skipped, fha) = fh_read 2 fh1;
                      (id_str, fhb) = fh_read 35 fha
                  in (fh_seek filepos fhb, segments @ [(app1_tag id_str, filepos - 2)]))
               else (fh1, segments @ [(seg_id, pos fh1 - 2)]))
        in if seg_id = ''EOI'' \<or> seg_id = ''SOS'' then Break segments2
           else if seg_mark \<in> set no_payload_markers then Continue fh2 segments2
           else
             let (dsbytes, fh3) = fh_read 2 fh2 in
             if length dsbytes < 2 then Break segments2
             else
               (case fh_seek_cur (unpack_uint BigEndian dsbytes - 2) fh3 of
                  Inl e \<Rightarrow> Raise e
                | Inr fh4 \<Rightarrow> Continue fh4 segments2))"

function segment_map_loop ::
  "'a filehandle_scheme \<Rightarrow> (string \<times> nat) list \<Rightarrow> error + (string \<times> nat) list" where
  "segment_map_loop fh segments =
     (case segment_map_body fh segments of
        Break segs \<Rightarrow> Inr segs
      | Raise e \<Rightarrow> Inl e
      | Continue fh' segs \<Rightarrow> segment_map_loop fh' segs)"
  by pat_completeness auto
termination
proof (relation "measure (\<lambda>(fh, segments). length (data fh) - pos fh)")
  show "wf (measure (\<lambda>(fh, segments). length (data fh) - pos fh))"
    by simp
next
  fix fh :: "'a filehandle_scheme" and segments fh' segs
  assume step: "segment_map_body fh segments = Continue fh' segs"
  have uint_ge: "0 \<le> unpack_uint BigEndian bs" for bs
  proof -
    have "0 \<le> foldl (\<lambda>acc b. acc * 256 + uint b) a bs" if "0 \<le> a" for a :: int
      using that by (induction bs arbitrary: a) simp_all
    then show ?thesis
      by (simp add: unpack_uint_def be_uint_def)
  qed
  have seek: "pos g \<le> pos g' + 2 \<and> data g' = data g"
    if "fh_seek_cur (unpack_uint BigEndian bs - 2) g = Inr g'"
    for g g' :: "'a filehandle_scheme" and bs
    using that uint_ge [of bs] by (auto simp: fh_seek_cur_def split: if_splits)
  have "pos fh + 2 \<le> length (data fh) \<and> pos fh + 2 \<le> pos fh' \<and> data fh' = data fh"
    using step
    by (auto simp: segment_map_body_def fh_read_def fh_seek_def Let_def
        min_def split: if_splits sum.splits prod.splits dest!: seek)
  then show "((fh', segs), (fh, segments)) \<in> measure (\<lambda>(fh, segments). length (data fh) - pos fh)"
    by auto
qed

definition segment_map :: "'a filehandle_scheme \<Rightarrow> error + (string \<times> nat) list" where
  "segment_map filehandle = segment_map_loop (fh_seek 2 filehandle) []"

section \<open>Marker and header checks\<close>

text \<open>
  \<^verbatim>\<open>verify_marker\<close>. The result \<open>Inl SystemExit\<close> is \<^verbatim>\<open>sys.exit()\<close>; a message
  printed before a return is appended to the output.
\<close>

definition verify_marker :: "string \<Rightarrow> 'a run_scheme \<Rightarrow> error + 'a run_scheme" where
  "verify_marker markertype st =
     (let (marker, st1) = fh_read 2 st in
      if markertype \<notin> set [''SOI'', ''APP0'', ''APP1'', ''APP2'', ''APP3'', ''APP12'',
                             ''APP13'', ''APP14'']
      then Inl SystemExit
      else if markertype = ''SOI'' \<and> marker \<noteq> [0xFF, 0xD8] then Inl SystemExit
      else if markertype = ''APP0'' \<and> marker \<noteq> [0xFF, 0xE0]
        then Inr (emit [Marker_expected_not_found ''APP0'' marker] st1)
      else if markertype = ''APP1'' \<and> marker \<noteq> [0xFF, 0xE1]
        then Inr (emit [Marker_expected_not_found ''APP1'' marker] st1)
      else if markertype = ''APP2'' \<and> marker \<noteq> [0xFF, 0xE2]
        then Inr (emit [Marker_expected_not_found ''APP2'' marker] st1)
      else if markertype = ''APP3'' \<and> marker \<noteq> [0xFF, 0xE3]
        then Inr (emit [Marker_expected_not_found ''APP3'' marker] st1)
      else if markertype = ''APP12'' \<and> marker \<noteq> [0xFF, 0xEC]
        then Inr (emit [Marker_expected_not_found ''APP12'' marker] st1)
      else if markertype = ''APP13'' \<and> marker \<noteq> [0xFF, 0xED]
        then Inr (emit [Marker_expected_not_found ''APP13'' marker] st1)
      else if markertype = ''APP14'' \<and> marker \<noteq> [0xFF, 0xEE]
        then Inr (emit [Marker_expected_not_found ''APP14'' marker] st1)
      else Inr st1)"

definition verify_exifheader :: "'a run_scheme \<Rightarrow> error + 'a run_scheme" where
  "verify_exifheader st =
     (let (exif_header, st1) = fh_read 6 st in
      if exif_header \<noteq> bytes_of ''Exif'' @ [0, 0] then Inl SystemExit
      else Inr st1)"

text \<open>The expression \<^verbatim>\<open>decoder.decode_bytes(filehandle.read(n))\<close>.\<close>

definition decode_read :: "byteorder \<Rightarrow> nat \<Rightarrow> 'a run_scheme \<Rightarrow> pyint \<times> 'a run_scheme" where
  "decode_read bo n st =
     (let (bs, st1) = fh_read n st;
          (v, ds) = decode_bytes bo bs
      in (v, emit ds st1))"

definition verify_tiffheader ::
  "'a run_scheme \<Rightarrow> error + ((nat \<times> bytes \<times> pyint) \<times> 'a run_scheme)" where
  "verify_tiffheader st =
     (let tiff_header = pos st;
          (byte_alignment, st1) = fh_read 2 st
      in case ExifDecoder (Some byte_alignment) of
           Inl e \<Rightarrow> Inl e
         | Inr (testdecoder, ds) \<Rightarrow>
             (let (sample_encoding, st2) = decode_read testdecoder 2 (emit ds st1) in
              if sample_encoding \<noteq> Some 42 then Inl SystemExit
              else
                let (ifd0, st3) = decode_read testdecoder 4 st2
                in Inr ((tiff_header, byte_alignment, ifd0), st3)))"

section \<open>Rendering values (exiferino.exifdata_tostring)\<close>

text \<open>\<^verbatim>\<open>str\<close> of an integer, of \<^verbatim>\<open>None\<close> and of a \<^verbatim>\<open>bytes\<close> object.\<close>

fun str_nat :: "nat \<Rightarrow> string" where
  "str_nat n =
     (if n < 10 then [''0123456789'' ! n]
      else str_nat (n div 10) @ [''0123456789'' ! (n mod 10)])"

definition str_int :: "int \<Rightarrow> string" where
  "str_int i = (if i < 0 then ''-'' @ str_nat (nat (- i)) else str_nat (nat i))"

definition str_pyint :: "pyint \<Rightarrow> string" where
  "str_pyint v = (case v of None \<Rightarrow> ''None'' | Some i \<Rightarrow> str_int i)"

definition repr_byte :: "char \<Rightarrow> byte \<Rightarrow> string" where
  "repr_byte quote c =
     (if c = of_char quote \<or> c = 0x5C then [CHR 0x5C, char_of (unat c)]
      else if c = 0x09 then [CHR 0x5C, CHR ''t'']
      else if c = 0x0A then [CHR 0x5C, CHR ''n'']
      else if c = 0x0D then [CHR 0x5C, CHR ''r'']
      else if c < 0x20 \<or> 0x7F \<le> c then [CHR 0x5C, CHR ''x''] @ hex2 c
      else [char_of (unat c)])"

definition str_bytes :: "bytes \<Rightarrow> string" where
  "str_bytes bs =
     (let quote = (if 0x27 \<in> set bs \<and> 0x22 \<notin> set bs then CHR 0x22 else CHR 0x27)
      in [CHR ''b'', quote] @ concat (map (repr_byte quote) bs) @ [quote])"

definition pyval_of :: "pyint \<Rightarrow> pyval" where
  "pyval_of v = (case v of None \<Rightarrow> NoneVal | Some i \<Rightarrow> IntVal i)"

text \<open>
  \<^verbatim>\<open>exifdata_tostring\<close>: the value returned and what \<^verbatim>\<open>decode_bytes\<close> printed.
  \<^verbatim>\<open>struct.unpack('B', b)\<close> raises unless \<open>b\<close> has one byte; \<^verbatim>\<open>stored_bytes[0]\<close>
  raises IndexError on an empty object and is an integer otherwise, which
  \<^verbatim>\<open>struct.unpack_from\<close> refuses with a TypeError.
\<close>

definition exifdata_tostring ::
  "bytes \<Rightarrow> pyint \<Rightarrow> byteorder \<Rightarrow> error + (pyval \<times> diag list)" where
  "exifdata_tostring stored_bytes datatype decoder =
     (if datatype = Some 1 then
        (if length stored_bytes = 1 then Inr (StrVal (str_int (uint (hd stored_bytes))), [])
         else Inl StructError)
      else if datatype = Some 2 then
        Inr (StrVal (map (\<lambda>byte. char_of (unat (byte AND 0x7F))) stored_bytes), [])
      else if datatype = Some 3 then
        (let (v, ds) = decode_bytes decoder (take 2 stored_bytes) in Inr (StrVal (str_pyint v), ds))
      else if datatype = Some 4 then
        (let (v, ds) = decode_bytes decoder (take 4 stored_bytes) in Inr (StrVal (str_pyint v), ds))
      else if datatype = Some 5 then
        (let (numerator, ds1) = decode_bytes decoder (take 4 stored_bytes);
             (denominator, ds2) = decode_bytes decoder (take 4 (drop 4 stored_bytes))
         in Inr (StrVal (str_pyint numerator @ ''/'' @ str_pyint denominator), ds1 @ ds2))
      else if datatype = Some 6 then
        (if stored_bytes = [] then Inl IndexError else Inl TypeError)
      else if datatype = Some 7 then
        (if stored_bytes = [] then Inl IndexError else Inr (IntVal (uint (hd stored_bytes)), []))
      else if datatype = Some 8 then
        (let (v, ds) = decode_bytes decoder (take 2 stored_bytes) in Inr (StrVal (str_pyint v), ds))
      else if datatype = Some 9 then
        (let (v, ds) = decode_bytes decoder (take 4 stored_bytes) in Inr (StrVal (str_pyint v), ds))
      else if datatype = Some 10 then
        (let (numerator, ds1) = decode_bytes decoder (take 4 stored_bytes);
             (denominator, ds2) = decode_bytes decoder (take 4 (drop 4 stored_bytes))
         in Inr (StrVal (str_pyint numerator @ ''/'' @ str_pyint denominator), ds1 @ ds2))
      else Inr (StrVal (str_bytes stored_bytes), []))"

section \<open>The directory walker (exiferino.read_ifd, exiferino.read_app1_exif)\<close>

text \<open>
  \<^verbatim>\<open>jpegdata.exiftag\<close>. The table \<open>EXIF_TAGS\<close> is loaded from a JSON file that is not
  part of the sources, so it is a parameter.
\<close>

definition exiftag :: "(string \<rightharpoonup> string) \<Rightarrow> pyint \<Rightarrow> string" where
  "exiftag EXIF_TAGS tagno =
     (let tagno_str = str_pyint tagno
      in case EXIF_TAGS tagno_str of Some tagname \<Rightarrow> tagname | None \<Rightarrow> tagno_str @ ''?'')"

text \<open>One pass through the body of the \<^verbatim>\<open>for\<close> loop of \<^verbatim>\<open>read_ifd\<close>.\<close>

definition read_ifd_entry ::
  "(string \<rightharpoonup> string) \<Rightarrow> byteorder \<Rightarrow> 'a walker_scheme \<Rightarrow> error + 'a walker_scheme" where
  "read_ifd_entry EXIF_TAGS decoder st =
     (let (exif_tag_no, st1) = decode_read decoder 2 st;
          (data_type, st2) = decode_read decoder 2 st1;
          (number_of_values, st3) = decode_read decoder 4 st2;
          (tagdata, st4) = fh_read 4 st3
      in if exif_tag_no \<in> set [Some 34665, Some 34853, Some 40965] then
           (let (v, ds) = decode_bytes decoder tagdata
            in Inr ((emit ds st4)\<lparr>subifd_queue := subifd_queue st4 @ [v]\<rparr>))
         else
           (let tagname = exiftag EXIF_TAGS exif_tag_no;
                dict_key = ''Exif|'' @ tagname
            in case exifdata_tostring tagdata data_type decoder of
                 Inl e \<Rightarrow> Inl e
               | Inr (tagvalue, ds) \<Rightarrow>
                   Inr ((emit ds st4)\<lparr>meta_dict := (meta_dict st4)
                     (dict_key \<mapsto> (tagvalue, str_pyint exif_tag_no, pyval_of data_type,
                                    pyval_of number_of_values))\<rparr>)))"

fun read_ifd_entries ::
  "(string \<rightharpoonup> string) \<Rightarrow> byteorder \<Rightarrow> nat \<Rightarrow> 'a walker_scheme \<Rightarrow> error + 'a walker_scheme" where
  "read_ifd_entries EXIF_TAGS decoder 0 st = Inr st"
| "read_ifd_entries EXIF_TAGS decoder (Suc n) st =
     (case read_ifd_entry EXIF_TAGS decoder st of
        Inl e \<Rightarrow> Inl e
      | Inr st' \<Rightarrow> read_ifd_entries EXIF_TAGS decoder n st')"

text \<open>
  \<^verbatim>\<open>read_ifd\<close>: the value returned and the state left. \<^verbatim>\<open>range(None)\<close> raises a
  TypeError.
\<close>

definition read_ifd ::
  "(string \<rightharpoonup> string) \<Rightarrow> bytes \<Rightarrow> 'a walker_scheme \<Rightarrow> error + (pyint \<times> 'a walker_scheme)" where
  "read_ifd EXIF_TAGS byte_order st =
     (case ExifDecoder (Some byte_order) of
        Inl e \<Rightarrow> Inl e
      | Inr (decoder, ds) \<Rightarrow>
          (let (directory_entries, st1) = decode_read decoder 2 (emit ds st) in
           case directory_entries of
             None \<Rightarrow> Inl TypeError
           | Some n \<Rightarrow>
               (case read_ifd_entries EXIF_TAGS decoder (nat n) st1 of
                  Inl e \<Rightarrow> Inl e
                | Inr st2 \<Rightarrow> Inr (decode_read decoder 4 st2))))"

text \<open>
  The loop \<^verbatim>\<open>while offset_ifd > 0\<close>, which occurs twice in \<^verbatim>\<open>read_app1_exif\<close>.
  Comparing \<^verbatim>\<open>None\<close> with 0 raises a TypeError. The loop need not end, so a run that
  does not return is the value \<open>None\<close>.
\<close>

partial_function (option) follow_chain ::
  "(string \<rightharpoonup> string) \<Rightarrow> bytes \<Rightarrow> nat \<Rightarrow> pyint \<Rightarrow> walker \<Rightarrow> (error + walker) option" where
  "follow_chain EXIF_TAGS byte_order tiff_header offset_ifd st =
     (case offset_ifd of
        None \<Rightarrow> Some (Inl TypeError)
      | Some off \<Rightarrow>
          if off > 0 then
            (case read_ifd EXIF_TAGS byte_order
                    ((fh_seek (nat (int tiff_header + off)) st)\<lparr>visited := visited st @ [off]\<rparr>) of
               Inl e \<Rightarrow> Some (Inl e)
             | Inr (offset_ifd', st') \<Rightarrow>
                 follow_chain EXIF_TAGS byte_order tiff_header offset_ifd' st')
          else Some (Inr st))"

text \<open>The loop \<^verbatim>\<open>while len(subifd_queue) > 0\<close>.\<close>

partial_function (option) drain_queue ::
  "(string \<rightharpoonup> string) \<Rightarrow> bytes \<Rightarrow> nat \<Rightarrow> walker \<Rightarrow> (error + walker) option" where
  "drain_queue EXIF_TAGS byte_order tiff_header st =
     (case subifd_queue st of
        [] \<Rightarrow> Some (Inr st)
      | offset_ifd # rest \<Rightarrow>
          Option.bind
            (follow_chain EXIF_TAGS byte_order tiff_header offset_ifd (st\<lparr>subifd_queue := rest\<rparr>))
            (\<lambda>r. case r of
                    Inl e \<Rightarrow> Some (Inl e)
                  | Inr st' \<Rightarrow> drain_queue EXIF_TAGS byte_order tiff_header st'))"

definition read_app1_exif ::
  "(string \<rightharpoonup> string) \<Rightarrow> nat \<Rightarrow> extraction \<Rightarrow> (error + walker) option" where
  "read_app1_exif EXIF_TAGS seg_offset imagefile =
     (let st0 = \<lparr>data = data imagefile, pos = seg_offset, out = out imagefile,
                 meta_dict = meta_dict imagefile, subifd_queue = [], visited = []\<rparr>
      in case verify_marker ''APP1'' st0 of
           Inl e \<Rightarrow> Some (Inl e)
         | Inr st1 \<Rightarrow>
             (let (skipped, st2) = fh_read 2 st1 in
              case verify_exifheader st2 of
                Inl e \<Rightarrow> Some (Inl e)
              | Inr st3 \<Rightarrow>
                  (case verify_tiffheader st3 of
                     Inl e \<Rightarrow> Some (Inl e)
                   | Inr ((tiff_header, byte_order, offset_ifd0), st4) \<Rightarrow>
                       Option.bind
                         (follow_chain EXIF_TAGS byte_order tiff_header offset_ifd0 st4)
                         (\<lambda>r. case r of
                                 Inl e \<Rightarrow> Some (Inl e)
                               | Inr st5 \<Rightarrow>
                                   drain_queue EXIF_TAGS byte_order tiff_header st5))))"

section \<open>The XMP extractor (exiferino.read_app1_xmp)\<close>

definition xmpns_tagtype :: "string \<Rightarrow> string" where
  "xmpns_tagtype xmp_namespace =
     (if xmp_namespace = ''http://www.w3.org/1999/02/22-rdf-syntax-ns#'' then ''XMP-RDF''
      else if xmp_namespace = ''http://ns.adobe.com/tiff/1.0/'' then ''XMP-tiff''
      else if xmp_namespace = ''http://ns.adobe.com/xap/1.0/'' then ''XMP-xap''
      else if xmp_namespace = ''http://ns.adobe.com/exif/1.0/'' then ''XMP-exif''
      else if xmp_namespace = ''http://ns.adobe.com/xap/1.0/mm/'' then ''XMP-xap''
      else if xmp_namespace = ''http://purl.org/dc/elements/1.1/'' then ''XMP-dcore''
      else if xmp_namespace = ''http://ns.adobe.com/photoshop/1.0/'' then ''Photoshop''
      else xmp_namespace)"

text \<open>
  An element of the tree that \<^verbatim>\<open>xml.etree.ElementTree.fromstring\<close> returns: its
  \<^verbatim>\<open>tag\<close>, its \<^verbatim>\<open>text\<close> (a string, or \<^verbatim>\<open>None\<close> for an element without text) and its
  children. \<^verbatim>\<open>iter()\<close> lists the element and its descendants in document order.
\<close>

datatype xml_element =
  Element (elem_tag: string) (elem_text: "string option") (elem_children: "xml_element list")

fun iter :: "xml_element \<Rightarrow> xml_element list" where
  "iter (Element t x cs) = Element t x cs # concat (map iter cs)"

text \<open>\<^verbatim>\<open>str.strip()\<close> on the code points below 256.\<close>

definition is_space :: "char \<Rightarrow> bool" where
  "is_space c =
     (let n = (of_char c :: nat)
      in (9 \<le> n \<and> n \<le> 13) \<or> (28 \<le> n \<and> n \<le> 32) \<or> n = 0x85 \<or> n = 0xA0)"

definition strip :: "string \<Rightarrow> string" where
  "strip s = rev (dropWhile is_space (rev (dropWhile is_space s)))"

definition str_text :: "string option \<Rightarrow> string" where
  "str_text v = (case v of None \<Rightarrow> ''None'' | Some t \<Rightarrow> t)"

definition text_val :: "string option \<Rightarrow> pyval" where
  "text_val v = (case v of None \<Rightarrow> NoneVal | Some t \<Rightarrow> StrVal t)"

text \<open>
  \<^verbatim>\<open>re.search(r'{(?P<ns>.+)}(?P<tag>.+)', tag)\<close>: the leftmost opening brace from which
  the pattern matches. The dot does not match a newline, and the first group is greedy:
  it ends at the last closing brace of the line that still leaves a character for the
  second group, which takes the rest of the line.
\<close>

definition brace_split :: "string \<Rightarrow> (string \<times> string) option" where
  "brace_split seg =
     (case filter (\<lambda>k. seg ! k = CHR ''}'') (rev [1..<length seg - 1]) of
        [] \<Rightarrow> None
      | k # ks \<Rightarrow> Some (take k seg, drop (Suc k) seg))"

fun match_ns_tag :: "string \<Rightarrow> (string \<times> string) option" where
  "match_ns_tag [] = None"
| "match_ns_tag (c # cs) =
     (if c = CHR ''{'' then
        (case brace_split (takeWhile (\<lambda>c. c \<noteq> CHR 0x0A) cs) of
           Some r \<Rightarrow> Some r
         | None \<Rightarrow> match_ns_tag cs)
      else match_ns_tag cs)"

text \<open>
  \<^verbatim>\<open>re.search(r'<\?xpacket end=[\'"]w[\'"]\?>', text, re.I)\<close>: the index at which the
  leftmost match starts.
\<close>

definition lower :: "char \<Rightarrow> char" where
  "lower c =
     (let n = (of_char c :: nat) in if 65 \<le> n \<and> n \<le> 90 then char_of (n + 32) else c)"

definition matches_end_tag :: "string \<Rightarrow> bool" where
  "matches_end_tag s \<longleftrightarrow>
     19 \<le> length s \<and> map lower (take 14 s) = ''<?xpacket end='' \<and>
     s ! 14 \<in> set [CHR 0x27, CHR 0x22] \<and> lower (s ! 15) = CHR ''w'' \<and>
     s ! 16 \<in> set [CHR 0x27, CHR 0x22] \<and> take 2 (drop 17 s) = ''?>''"

fun search_end_tag :: "string \<Rightarrow> nat option" where
  "search_end_tag [] = None"
| "search_end_tag (c # cs) =
     (if matches_end_tag (c # cs) then Some 0 else map_option Suc (search_end_tag cs))"

text \<open>The body of the loop over the elements: the dictionary after one element.\<close>

definition xmp_record ::
  "(string \<rightharpoonup> (pyval \<times> string \<times> pyval \<times> pyval)) \<Rightarrow> xml_element \<Rightarrow>
   (string \<rightharpoonup> (pyval \<times> string \<times> pyval \<times> pyval))" where
  "xmp_record md child =
     (let tag_value = elem_text child in
      if strip (str_text tag_value) = [] then md
      else
        (case match_ns_tag (elem_tag child) of
           None \<Rightarrow> md
         | Some (xmp_ns, tagname) \<Rightarrow>
             md(xmpns_tagtype xmp_ns @ ''|'' @ tagname \<mapsto>
                  (text_val tag_value, [], StrVal [], IntVal 1))))"

text \<open>
  \<^verbatim>\<open>read_app1_xmp\<close>. Two library functions are parameters:
  \<open>decode_utf8\<close> is \<^verbatim>\<open>bytes.decode('utf8')\<close> and \<open>fromstring\<close> is the XML parser; each
  returns \<open>None\<close> where the library raises. \<^verbatim>\<open>struct.unpack('>H', b)\<close> raises unless
  \<open>b\<close> has two bytes. \<^verbatim>\<open>read(n)\<close> reads to the end of the file for \<open>n = -1\<close> and raises
  a ValueError for \<open>n < -1\<close>.
\<close>

definition read_app1_xmp ::
  "(bytes \<Rightarrow> string option) \<Rightarrow> (string \<Rightarrow> xml_element option) \<Rightarrow> nat \<Rightarrow>
   'a extraction_scheme \<Rightarrow> error + 'a extraction_scheme" where
  "read_app1_xmp decode_utf8 fromstring seg_offset imagefile =
     (case verify_marker ''APP1'' (fh_seek seg_offset imagefile) of
        Inl e \<Rightarrow> Inl e
      | Inr st1 \<Rightarrow>
          (let (dsbytes, st2) = fh_read 2 st1 in
           if length dsbytes \<noteq> 2 then Inl StructError
           else
             let datasize = unpack_uint BigEndian dsbytes;
                 (skipped, st3) = fh_read 29 st2;
                 payload_size = datasize - 29 - 2
             in if payload_size < - 1 then Inl ValueError
                else
                  let (app1_payload, st4) =
                        (if payload_size = - 1 then fh_read (length (data st3)) st3
                         else fh_read (nat payload_size) st3)
                  in case decode_utf8 app1_payload of
                       None \<Rightarrow> Inl UnicodeDecodeError
                     | Some payload_text \<Rightarrow>
                         (case search_end_tag payload_text of
                            None \<Rightarrow> Inr (emit [No_closing_tag_found] st4)
                          | Some start \<Rightarrow>
                              (let closing_tag_pos = start + 2;
                                   xmp_packet =
                                     (if closing_tag_pos = 0 then []
                                      else take (closing_tag_pos + 19) app1_payload)
                               in case decode_utf8 xmp_packet of
                                    None \<Rightarrow> Inl UnicodeDecodeError
                                  | Some packet_text \<Rightarrow>
                                      (case fromstring packet_text of
                                         None \<Rightarrow> Inl ParseError
                                       | Some root \<Rightarrow>
                                           Inr (st4\<lparr>meta_dict :=
                                             foldl xmp_record (meta_dict st4) (iter root)\<rparr>))))))"

section \<open>The order of the directory walk, as the specification words it\<close>

text \<open>
  What \<open>read_ifd\<close> returns and appends to the queue when it starts at position \<open>p\<close>
  of the file.
\<close>

definition ifd_at ::
  "(string \<rightharpoonup> string) \<Rightarrow> bytes \<Rightarrow> bytes \<Rightarrow> nat \<Rightarrow> error + (pyint \<times> pyint list)" where
  "ifd_at EXIF_TAGS byte_order content p =
     (case read_ifd EXIF_TAGS byte_order
             \<lparr>data = content, pos = p, out = [], meta_dict = Map.empty, subifd_queue = [],
              visited = []\<rparr> of
        Inl e \<Rightarrow> Inl e
      | Inr (nxt, st) \<Rightarrow> Inr (nxt, subifd_queue st))"

text \<open>
  \<open>chain_order \<dots> off os es\<close>: the chain that starts at the offset \<open>off\<close> and is
  followed through the next-directory offsets until an offset that is not positive
  visits the offsets \<open>os\<close>, in this order, and its directories append \<open>es\<close> to the queue.
\<close>

inductive chain_order ::
  "(string \<rightharpoonup> string) \<Rightarrow> bytes \<Rightarrow> bytes \<Rightarrow> nat \<Rightarrow> pyint \<Rightarrow> int list \<Rightarrow> pyint list \<Rightarrow> bool"
  for EXIF_TAGS byte_order content tiff_header where
    chain_end: "off \<le> 0 \<Longrightarrow> chain_order EXIF_TAGS byte_order content tiff_header (Some off) [] []"
  | chain_step:
      "0 < off \<Longrightarrow>
       ifd_at EXIF_TAGS byte_order content (nat (int tiff_header + off)) = Inr (nxt, es) \<Longrightarrow>
       chain_order EXIF_TAGS byte_order content tiff_header nxt os qs \<Longrightarrow>
       chain_order EXIF_TAGS byte_order content tiff_header (Some off) (off # os) (es @ qs)"

text \<open>
  \<open>fifo_order \<dots> queue ws\<close>: draining the queue first in, first out, each offset's
  chain followed to its end before the next offset is taken, and the offsets found on
  the way appended at the back, visits the offsets \<open>ws\<close> in this order.
\<close>

inductive fifo_order ::
  "(string \<rightharpoonup> string) \<Rightarrow> bytes \<Rightarrow> bytes \<Rightarrow> nat \<Rightarrow> pyint list \<Rightarrow> int list \<Rightarrow> bool"
  for EXIF_TAGS byte_order content tiff_header where
    fifo_empty: "fifo_order EXIF_TAGS byte_order content tiff_header [] []"
  | fifo_step:
      "chain_order EXIF_TAGS byte_order content tiff_header q os es \<Longrightarrow>
       fifo_order EXIF_TAGS byte_order content tiff_header (qs @ es) ws \<Longrightarrow>
       fifo_order EXIF_TAGS byte_order content tiff_header (q # qs) (os @ ws)"

section \<open>Theorems\<close>

lemma be_uint_2: "be_uint [a, b] = uint a * 256 + uint b"
  by (simp add: be_uint_def)

lemma be_uint_4:
  "be_uint [a, b, c, d] = ((uint a * 256 + uint b) * 256 + uint c) * 256 + uint d"
  by (simp add: be_uint_def)

subsection \<open>The decoder\<close>

text \<open>
  Claim C4: for either byte order, \<open>decode_bytes\<close> returns 0 for the empty byte string,
  the unsigned 16-bit value of a 2-byte string and the unsigned 32-bit value of a 4-byte
  string, each read in the active byte order; for every other length it prints the
  diagnostic and returns \<open>None\<close>, not a number.
\<close>

theorem decode_bytes_by_length:
  "decode_bytes bo [] = (Some 0, []) \<and>
   decode_bytes LittleEndian [a, b] = (Some (uint a + 256 * uint b), []) \<and>
   decode_bytes BigEndian [a, b] = (Some (256 * uint a + uint b), []) \<and>
   decode_bytes LittleEndian [a, b, c, d] =
     (Some (uint a + 256 * uint b + 65536 * uint c + 16777216 * uint d), []) \<and>
   decode_bytes BigEndian [a, b, c, d] =
     (Some (16777216 * uint a + 65536 * uint b + 256 * uint c + uint d), []) \<and>
   (length bs \<notin> {0, 2, 4} \<longrightarrow> decode_bytes bo bs = (None, [Invalid_byte_string bs]))"
  by (simp add: decode_bytes_def unpack_uint_def be_uint_def)

theorem decode_bytes_by_length_witness:
  "length [1, 2, 3 :: byte] \<notin> {0, 2, 4} \<and>
   decode_bytes LittleEndian [1, 2, 3] = (None, [Invalid_byte_string [1, 2, 3]])"
  using decode_bytes_by_length [of LittleEndian _ _ _ _ "[1, 2, 3]"] by simp

text \<open>
  Claim C9: \<open>set_byteorder\<close> with a byte string as the alignment setting always returns.
  The value \<^verbatim>\<open>b'II'\<close> (0x49 0x49) selects little-endian and every other value selects
  big-endian; a value that is neither \<^verbatim>\<open>b'II'\<close> nor \<^verbatim>\<open>b'MM'\<close> (0x4D 0x4D) only adds the
  warning, and a decoder created from it decodes in big-endian order.
\<close>

theorem set_byteorder_total:
  "set_byteorder (Some b) None =
     Inr (if b = [0x49, 0x49] then LittleEndian else BigEndian,
          if b = [0x49, 0x49] \<or> b = [0x4D, 0x4D] then []
          else [Invalid_endian_setting (Some b)]) \<and>
   (b \<noteq> [0x49, 0x49] \<longrightarrow>
      (\<forall>bo ds. ExifDecoder (Some b) = Inr (bo, ds) \<longrightarrow>
         bo = BigEndian \<and>
         decode_bytes bo [x, y] = (Some (256 * uint x + uint y), []) \<and>
         decode_bytes bo [x, y, z, w] =
           (Some (16777216 * uint x + 65536 * uint y + 256 * uint z + uint w), []))) \<and>
   (b \<noteq> [0x49, 0x49] \<and> b \<noteq> [0x4D, 0x4D] \<longrightarrow>
      ExifDecoder (Some b) = Inr (BigEndian, [Invalid_endian_setting (Some b)]))"
  by (auto simp: set_byteorder_def ExifDecoder_def bytes_of_def decode_bytes_def
      unpack_uint_def be_uint_def)

theorem set_byteorder_total_witness:
  "[0x58, 0x59] \<noteq> [0x49, 0x49 :: byte] \<and> [0x58, 0x59] \<noteq> [0x4D, 0x4D :: byte] \<and>
   ExifDecoder (Some [0x58, 0x59]) =
     Inr (BigEndian, [Invalid_endian_setting (Some [0x58, 0x59])]) \<and>
   decode_bytes BigEndian [0x01, 0x00] = (Some 256, [])"
  using set_byteorder_total [of "[0x58, 0x59]" 1 0] by simp

subsection \<open>Rendering\<close>

text \<open>
  Claim C5 says that datatype 8 (SSHORT) and datatype 9 (SLONG) are rendered as signed
  two's-complement values. \<open>exifdata_tostring\<close> renders both through the unsigned
  \<open>decode_bytes\<close>: the bytes FF FF give 65535 and the bytes FF FF FF FF give 4294967295,
  where the signed reading is -1.
\<close>

theorem exifdata_tostring_signed_types_unsigned:
  "exifdata_tostring [0xFF, 0xFF, 0x00, 0x00] (Some 8) LittleEndian = Inr (StrVal ''65535'', []) \<and>
   exifdata_tostring [0xFF, 0xFF, 0x00, 0x00] (Some 8) BigEndian = Inr (StrVal ''65535'', []) \<and>
   exifdata_tostring [0xFF, 0xFF, 0xFF, 0xFF] (Some 9) LittleEndian =
     Inr (StrVal ''4294967295'', []) \<and>
   exifdata_tostring [0xFF, 0xFF, 0xFF, 0xFF] (Some 9) BigEndian =
     Inr (StrVal ''4294967295'', []) \<and>
   str_int (sint (0xFFFF :: 16 word)) = ''-1'' \<and>
   str_int (sint (0xFFFFFFFF :: 32 word)) = ''-1''"
  by (simp add: exifdata_tostring_def decode_bytes_def unpack_uint_def be_uint_def
      str_pyint_def str_int_def)

subsection \<open>Marker verification\<close>

text \<open>
  Claim C10: \<open>verify_marker\<close> ends the process exactly when the expected marker type is
  not in its list, or is SOI and the bytes read are not FF D8. For each of APP0, APP1,
  APP2, APP3, APP12, APP13 and APP14 it returns: the position has advanced by the number
  of bytes read, which is 2 when the file has two more bytes, and a mismatch only adds
  the message to the output.
\<close>

theorem verify_marker_exits:
  "(let marker = take 2 (drop (pos st) (data st)) in
     ((\<exists>e. verify_marker markertype st = Inl e) \<longleftrightarrow>
        markertype \<notin> {''SOI'', ''APP0'', ''APP1'', ''APP2'', ''APP3'', ''APP12'', ''APP13'',
                        ''APP14''} \<or>
        (markertype = ''SOI'' \<and> marker \<noteq> [0xFF, 0xD8])) \<and>
     (\<forall>e. verify_marker markertype st = Inl e \<longrightarrow> e = SystemExit) \<and>
     ((markertype, code) \<in> {(''APP0'', [0xFF, 0xE0]), (''APP1'', [0xFF, 0xE1]),
          (''APP2'', [0xFF, 0xE2]), (''APP3'', [0xFF, 0xE3]), (''APP12'', [0xFF, 0xEC]),
          (''APP13'', [0xFF, 0xED]), (''APP14'', [0xFF, 0xEE])} \<longrightarrow>
        verify_marker markertype st =
          Inr (st\<lparr>pos := pos st + length marker,
                  out := out st @ (if marker \<noteq> code
                                   then [Marker_expected_not_found markertype marker]
                                   else [])\<rparr>) \<and>
        (pos st + 2 \<le> length (data st) \<longrightarrow> length marker = 2)))"
  by (auto simp: verify_marker_def fh_read_def emit_def Let_def)

theorem verify_marker_exits_witness:
  "(''APP1'', [0xFF, 0xE1]) \<in> {(''APP0'', [0xFF, 0xE0 :: byte]), (''APP1'', [0xFF, 0xE1]),
       (''APP2'', [0xFF, 0xE2]), (''APP3'', [0xFF, 0xE3]), (''APP12'', [0xFF, 0xEC]),
       (''APP13'', [0xFF, 0xED]), (''APP14'', [0xFF, 0xEE])} \<and>
   pos \<lparr>data = [0xFF, 0xD8, 0xFF, 0xE0, 0x00, 0x02], pos = 2, out = []\<rparr> + 2
     \<le> length (data \<lparr>data = [0xFF, 0xD8, 0xFF, 0xE0, 0x00, 0x02], pos = 2, out = []\<rparr>) \<and>
   verify_marker ''APP1'' \<lparr>data = [0xFF, 0xD8, 0xFF, 0xE0, 0x00, 0x02], pos = 2, out = []\<rparr> =
     Inr \<lparr>data = [0xFF, 0xD8, 0xFF, 0xE0, 0x00, 0x02], pos = 4,
          out = [Marker_expected_not_found ''APP1'' [0xFF, 0xE0]]\<rparr>"
  using verify_marker_exits
    [of "\<lparr>data = [0xFF, 0xD8, 0xFF, 0xE0, 0x00, 0x02], pos = 2, out = []\<rparr>" "''APP1''"
        "[0xFF, 0xE1]"]
  by simp

subsection \<open>The segment scanner\<close>

lemma unpack_uint_nonneg: "0 \<le> unpack_uint bo bs"
proof -
  have "0 \<le> foldl (\<lambda>acc b. acc * 256 + uint b) a bs" if "0 \<le> a" for a :: int and bs :: bytes
    using that by (induction bs arbitrary: a) simp_all
  then show ?thesis
    by (simp add: unpack_uint_def be_uint_def split: byteorder.splits)
qed

lemma fh_seek_cur_Inl: "fh_seek_cur (unpack_uint bo bs - 2) g = Inl e \<Longrightarrow> pos g < 2"
  using unpack_uint_nonneg [of bo bs] by (auto simp: fh_seek_cur_def split: if_splits)

lemma segment_map_body_appends:
  "(segment_map_body fh segs = Break s \<longrightarrow> (\<exists>xs. s = segs @ xs)) \<and>
   (segment_map_body fh segs = Continue fh' s \<longrightarrow> (\<exists>xs. s = segs @ xs)) \<and>
   segment_map_body fh segs \<noteq> Raise e"
  by (auto simp: segment_map_body_def fh_read_def fh_seek_def Let_def
      split: if_splits sum.splits prod.splits dest!: fh_seek_cur_Inl)

lemma segment_map_loop_appends: "\<exists>rest. segment_map_loop fh segs = Inr (segs @ rest)"
proof (induction fh segs rule: segment_map_loop.induct)
  case (1 fh segments)
  show ?case
  proof (cases "segment_map_body fh segments")
    case (Break s)
    then show ?thesis
      using segment_map_body_appends [of fh segments s] by (subst segment_map_loop.simps) auto
  next
    case (Continue fh' s)
    then obtain xs where s: "s = segments @ xs"
      using segment_map_body_appends [of fh segments s fh'] by auto
    from 1 [OF Continue] obtain rest where "segment_map_loop fh' s = Inr (s @ rest)" by auto
    then show ?thesis
      using Continue s by (subst segment_map_loop.simps) auto
  next
    case (Raise e)
    then show ?thesis
      using segment_map_body_appends [of fh segments _ _ e] by simp
  qed
qed

lemma take_take_prefix:
  assumes "length p = n" "n \<le> m"
  shows "take n (take m xs) = p \<longleftrightarrow> prefix p xs"
proof
  assume "take n (take m xs) = p"
  then have "take n xs = p" using assms by (simp add: min_def)
  then show "prefix p xs" by (metis take_is_prefix)
next
  assume "prefix p xs"
  then obtain zs where "xs = p @ zs" by (auto simp: prefix_def)
  then show "take n (take m xs) = p" using assms by (simp add: min_def)
qed

lemma seginfo_name_simps:
  "name (seginfo [0xFF, 0xE0]) = ''APP0''"
  "name (seginfo [0xFF, 0xE1]) = ''APP1''"
  "name (seginfo [0xFF, 0xDA]) = ''SOS''"
  "name (seginfo [0xFF, 0xD9]) = ''EOI''"
  by (simp_all add: seginfo_def segdata_def)

lemma app1_tag_prefix:
  "app1_tag (take 35 xs) =
     (if prefix (bytes_of ''Exif'' @ [0, 0]) xs then ''APP1-Exif''
      else if prefix (bytes_of ''http://ns.adobe.com/xap/1.0/'' @ [0]) xs then ''APP1-XMP''
      else if prefix (bytes_of ''http://ns.adobe.com/xmp/extension/'' @ [0]) xs then ''APP1-XMPext''
      else ''APP1-unknown'')"
proof -
  have a: "take 6 (take 35 xs) = bytes_of ''Exif'' @ [0, 0] \<longleftrightarrow> prefix (bytes_of ''Exif'' @ [0, 0]) xs"
    by (rule take_take_prefix) (simp_all add: bytes_of_def)
  have b: "take 29 (take 35 xs) = bytes_of ''http://ns.adobe.com/xap/1.0/'' @ [0]
      \<longleftrightarrow> prefix (bytes_of ''http://ns.adobe.com/xap/1.0/'' @ [0]) xs"
    by (rule take_take_prefix) (simp_all add: bytes_of_def)
  have c: "take 35 (take 35 xs) = bytes_of ''http://ns.adobe.com/xmp/extension/'' @ [0]
      \<longleftrightarrow> prefix (bytes_of ''http://ns.adobe.com/xmp/extension/'' @ [0]) xs"
    by (rule take_take_prefix) (simp_all add: bytes_of_def)
  show ?thesis
    unfolding app1_tag_def by (simp only: a b c)
qed

lemma segment_map_body_app1:
  assumes "take 2 (drop (pos fh) (data fh)) = [0xFF, 0xE1]"
  shows "(\<exists>fh'. segment_map_body fh segs =
            Continue fh' (segs @ [(app1_tag (take 35 (drop (pos fh + 4) (data fh))), pos fh)])) \<or>
         segment_map_body fh segs =
            Break (segs @ [(app1_tag (take 35 (drop (pos fh + 4) (data fh))), pos fh)])"
proof -
  have len: "length (take 2 (drop (pos fh) (data fh))) = 2"
    using assms by simp
  have mark: "[0xFF, 0xE1] \<notin> set no_payload_markers"
    by (simp add: no_payload_markers_def)
  have d: "drop (pos fh + 2 + length (take 2 (drop (pos fh + 2) (data fh)))) (data fh)
         = drop (pos fh + 4) (data fh)"
  proof -
    have eq: "drop a xs = drop b xs" if "a = b \<or> (length xs \<le> a \<and> length xs \<le> b)"
      for a b and xs :: bytes
      using that by auto
    show ?thesis
      by (rule eq) (simp add: min_def, arith)
  qed
  show ?thesis
    using len mark d assms
    by (auto simp: segment_map_body_def fh_read_def fh_seek_def Let_def seginfo_name_simps
        split: sum.splits prod.splits dest!: fh_seek_cur_Inl)
qed

text \<open>
  Claim C6: when the scanner reads the marker FF E1 at a position, the entry it records
  for it has the offset of the marker, and its tag is decided by the bytes that follow
  the two length bytes: a prefix \<^verbatim>\<open>Exif\<close> and two zero bytes gives APP1-Exif, otherwise the
  29-byte XAP identifier gives APP1-XMP, otherwise the 35-byte XMP extension identifier gives
  APP1-XMPext, and anything else gives APP1-unknown.
\<close>

theorem segment_map_app1_tag:
  assumes "take 2 (drop (pos fh) (data fh)) = [0xFF, 0xE1]"
  shows "\<exists>rest. segment_map_loop fh segments =
           Inr (segments @
             ((if prefix [0x45, 0x78, 0x69, 0x66, 0x00, 0x00] (drop (pos fh + 4) (data fh))
                 then ''APP1-Exif''
               else if prefix (bytes_of ''http://ns.adobe.com/xap/1.0/'' @ [0x00])
                         (drop (pos fh + 4) (data fh))
                 then ''APP1-XMP''
               else if prefix (bytes_of ''http://ns.adobe.com/xmp/extension/'' @ [0x00])
                         (drop (pos fh + 4) (data fh))
                 then ''APP1-XMPext''
               else ''APP1-unknown''), pos fh) # rest)"
proof -
  let ?tag = "app1_tag (take 35 (drop (pos fh + 4) (data fh)))"
  have tag: "?tag =
    (if prefix [0x45, 0x78, 0x69, 0x66, 0x00, 0x00] (drop (pos fh + 4) (data fh))
                 then ''APP1-Exif''
               else if prefix (bytes_of ''http://ns.adobe.com/xap/1.0/'' @ [0x00])
                         (drop (pos fh + 4) (data fh))
                 then ''APP1-XMP''
               else if prefix (bytes_of ''http://ns.adobe.com/xmp/extension/'' @ [0x00])
                         (drop (pos fh + 4) (data fh))
                 then ''APP1-XMPext''
               else ''APP1-unknown'')"
    by (simp add: app1_tag_prefix) (simp add: bytes_of_def)
  from segment_map_body_app1 [OF assms, of segments]
  consider fh' where "segment_map_body fh segments = Continue fh' (segments @ [(?tag, pos fh)])"
    | "segment_map_body fh segments = Break (segments @ [(?tag, pos fh)])"
    by blast
  then have "\<exists>rest. segment_map_loop fh segments = Inr (segments @ (?tag, pos fh) # rest)"
  proof cases
    case 1
    obtain rest where "segment_map_loop fh' (segments @ [(?tag, pos fh)])
        = Inr ((segments @ [(?tag, pos fh)]) @ rest)"
      using segment_map_loop_appends by blast
    then show ?thesis
      using 1 by (subst segment_map_loop.simps) simp
  next
    case 2
    then show ?thesis
      by (subst segment_map_loop.simps) simp
  qed
  then show ?thesis
    by (simp only: tag)
qed

theorem segment_map_app1_tag_witness:
  "take 2 (drop (pos \<lparr>data = [0xFF, 0xD8, 0xFF, 0xE1, 0x00, 0x08, 0x45, 0x78, 0x69, 0x66, 0x00, 0x00,
                               0xFF, 0xD9], pos = 2\<rparr>)
            (data \<lparr>data = [0xFF, 0xD8, 0xFF, 0xE1, 0x00, 0x08, 0x45, 0x78, 0x69, 0x66, 0x00, 0x00,
                               0xFF, 0xD9], pos = 2\<rparr>)) = [0xFF, 0xE1] \<and>
   (\<exists>rest. segment_map_loop
        \<lparr>data = [0xFF, 0xD8, 0xFF, 0xE1, 0x00, 0x08, 0x45, 0x78, 0x69, 0x66, 0x00, 0x00,
                 0xFF, 0xD9], pos = 2\<rparr> [] = Inr ((''APP1-Exif'', 2) # rest))"
proof -
  let ?fh = "\<lparr>data = [0xFF, 0xD8, 0xFF, 0xE1, 0x00, 0x08, 0x45, 0x78, 0x69, 0x66, 0x00, 0x00,
                 0xFF, 0xD9 :: byte], pos = 2\<rparr>"
  have h: "take 2 (drop (pos ?fh) (data ?fh)) = [0xFF, 0xE1]"
    by simp
  show ?thesis
    using h segment_map_app1_tag [OF h, of "[]"] by simp
qed

text \<open>
  Claim C1 says that a file made of SOI, an APP0 segment, SOS and EOI is mapped to the
  segments SOI, APP0, SOS. The scanner starts at offset 2, after the SOI marker, so SOI is
  not in its list.
\<close>

theorem segment_map_minimal_jpeg_counterexample:
  "segment_map \<lparr>data = [0xFF, 0xD8,
                        0xFF, 0xE0, 0x00, 0x10, 0x4A, 0x46, 0x49, 0x46, 0x00, 0x01, 0x01, 0x00,
                        0x00, 0x01, 0x00, 0x01, 0x00, 0x00,
                        0xFF, 0xDA, 0x00, 0x08, 0x01, 0x01, 0x00, 0x00, 0x3F, 0x00,
                        0xFF, 0xD9], pos = 0\<rparr>
     = Inr [(''APP0'', 2), (''SOS'', 20)] \<and>
   segment_map \<lparr>data = [0xFF, 0xD8,
                        0xFF, 0xE0, 0x00, 0x10, 0x4A, 0x46, 0x49, 0x46, 0x00, 0x01, 0x01, 0x00,
                        0x00, 0x01, 0x00, 0x01, 0x00, 0x00,
                        0xFF, 0xDA, 0x00, 0x08, 0x01, 0x01, 0x00, 0x00, 0x3F, 0x00,
                        0xFF, 0xD9], pos = 0\<rparr>
     \<noteq> Inr [(''SOI'', 0), (''APP0'', 2), (''SOS'', 20)]"
  by code_simp

text \<open>
  Claim C1, amended: for a file that starts with the SOI marker, an APP0 segment whose
  length field is the length of its payload plus 2, and the SOS marker, the scanner
  returns exactly APP0 at offset 2 and SOS at the offset of its marker; the SOS segment is
  recorded and nothing after it is.
\<close>

theorem segment_map_minimal_jpeg:
  assumes d: "data fh = [0xFF, 0xD8, 0xFF, 0xE0, hi, lo] @ payload @ [0xFF, 0xDA] @ rest"
    and n: "256 * unat hi + unat lo = length payload + 2"
  shows "segment_map fh = Inr [(''APP0'', 2), (''SOS'', 6 + length payload)]"
proof -
  have app0: "[0xFF, 0xE0] \<notin> set no_payload_markers"
    by (simp add: no_payload_markers_def)
  have u: "unpack_uint BigEndian [hi, lo] = int (length payload) + 2"
    using arg_cong [OF n, of int] by (simp add: unpack_uint_def be_uint_def)
  have r1: "fh_read 2 (fh_seek 2 fh) = ([0xFF, 0xE0], fh\<lparr>pos := 4\<rparr>)"
    by (simp add: fh_read_def fh_seek_def d)
  have r2: "fh_read 2 (fh\<lparr>pos := 4\<rparr>) = ([hi, lo], fh\<lparr>pos := 6\<rparr>)"
    by (simp add: fh_read_def d)
  have r3: "fh_seek_cur (unpack_uint BigEndian [hi, lo] - 2) (fh\<lparr>pos := 6\<rparr>)
        = Inr (fh\<lparr>pos := 6 + length payload\<rparr>)"
    by (simp add: fh_seek_cur_def u nat_add_distrib)
  have step1: "segment_map_body (fh_seek 2 fh) []
      = Continue (fh\<lparr>pos := 6 + length payload\<rparr>) [(''APP0'', 2)]"
    unfolding segment_map_body_def
    by (simp add: r1 r2 r3 app0 seginfo_name_simps del: One_nat_def)
  have dr: "drop (6 + length payload) (data fh) = 0xFF # 0xDA # rest"
  proof -
    have "length ([0xFF, 0xD8, 0xFF, 0xE0, hi, lo] @ payload) = 6 + length payload"
      by simp
    moreover have "data fh = ([0xFF, 0xD8, 0xFF, 0xE0, hi, lo] @ payload) @ (0xFF # 0xDA # rest)"
      by (simp add: d)
    ultimately show ?thesis
      by (metis append_eq_conv_conj)
  qed
  have r4: "fh_read 2 (fh\<lparr>pos := 6 + length payload\<rparr>)
      = ([0xFF, 0xDA], fh\<lparr>pos := 8 + length payload\<rparr>)"
    by (simp add: fh_read_def dr)
  have step2: "segment_map_body (fh\<lparr>pos := 6 + length payload\<rparr>) [(''APP0'', 2)]
      = Break [(''APP0'', 2), (''SOS'', 6 + length payload)]"
    unfolding segment_map_body_def
    by (simp add: r4 seginfo_name_simps del: One_nat_def)
  show ?thesis
    unfolding segment_map_def
    by (subst segment_map_loop.simps, simp only: step1 scan_step.case,
        subst segment_map_loop.simps, simp only: step2 scan_step.case)
qed

theorem segment_map_minimal_jpeg_witness:
  "256 * unat (0x00 :: byte) + unat (0x07 :: byte)
     = length [0x4A, 0x46, 0x49, 0x46, 0x00 :: byte] + 2 \<and>
   segment_map \<lparr>data = [0xFF, 0xD8, 0xFF, 0xE0, 0x00, 0x07] @ [0x4A, 0x46, 0x49, 0x46, 0x00]
                   @ [0xFF, 0xDA] @ [0x00, 0x02, 0xFF, 0xD9], pos = 0\<rparr>
     = Inr [(''APP0'', 2), (''SOS'', 6 + length [0x4A, 0x46, 0x49, 0x46, 0x00 :: byte])]"
proof -
  have n: "256 * unat (0x00 :: byte) + unat (0x07 :: byte)
      = length [0x4A, 0x46, 0x49, 0x46, 0x00 :: byte] + 2"
    by simp
  have d: "data \<lparr>data = [0xFF, 0xD8, 0xFF, 0xE0, 0x00, 0x07] @ [0x4A, 0x46, 0x49, 0x46, 0x00]
                   @ [0xFF, 0xDA] @ [0x00, 0x02, 0xFF, 0xD9], pos = 0\<rparr>
      = [0xFF, 0xD8, 0xFF, 0xE0, 0x00, 0x07] @ [0x4A, 0x46, 0x49, 0x46, 0x00]
                   @ [0xFF, 0xDA] @ [0x00, 0x02, 0xFF, 0xD9 :: byte]"
    by simp
  show ?thesis
    using n segment_map_minimal_jpeg [OF d n] by blast
qed

subsection \<open>The XMP extractor\<close>

text \<open>
  Claim C7 says that exactly the elements with non-empty text after trimming give a
  record, and that an element with empty text gives none. The loop tests
  \<^verbatim>\<open>str(tag_value).strip()\<close>, and \<^verbatim>\<open>str(None)\<close> is the text \<^verbatim>\<open>None\<close>: an element
  without text, for which the parser gives \<^verbatim>\<open>None\<close>, is recorded with the value
  \<^verbatim>\<open>None\<close>. Here the creator element with the text Jane is recorded, the rights element
  with blank text is skipped, and the title element without text is recorded.
\<close>

theorem xmp_record_empty_element:
  "foldl xmp_record Map.empty
     (iter (Element ''{adobe:ns:meta/}xmpmeta'' (Some [CHR 0x0A, CHR '' ''])
        [Element ''{http://purl.org/dc/elements/1.1/}creator'' (Some ''Jane'') [],
         Element ''{http://purl.org/dc/elements/1.1/}rights'' (Some ''  '') [],
         Element ''{http://purl.org/dc/elements/1.1/}title'' None []]))
   = [''XMP-dcore|creator'' \<mapsto> (StrVal ''Jane'', [], StrVal [], IntVal 1),
      ''XMP-dcore|title'' \<mapsto> (NoneVal, [], StrVal [], IntVal 1)]"
  by (simp add: xmp_record_def strip_def str_text_def text_val_def is_space_def
      brace_split_def xmpns_tagtype_def upt_rec [of 1] )

lemma fh_read_exact:
  "drop (pos fh) (data fh) = bs @ rest \<Longrightarrow> length bs = n \<Longrightarrow>
   fh_read n fh = (bs, fh\<lparr>pos := pos fh + n\<rparr>)"
  by (simp add: fh_read_def)

lemma drop_app_eq: "xs = ys @ zs \<Longrightarrow> length ys = n \<Longrightarrow> drop n xs = zs"
  by simp

text \<open>
  Claim C8: the segment starts at \<open>seg_offset\<close> with a marker, the two length bytes
  \<open>hi\<close> and \<open>lo\<close>, and the bytes \<open>tail\<close>; the payload is what follows the 29
  identifier bytes, as far as the length field says. When the decoded payload has no match
  of the closing-tag pattern, \<open>read_app1_xmp\<close> returns normally: it has printed the
  diagnostic and the metadata dictionary is as it was.
\<close>

theorem read_app1_xmp_no_closing_tag:
  assumes d: "data st = pre @ [m1, m2, hi, lo] @ tail"
    and pre: "length pre = seg_offset"
    and ds: "30 \<le> 256 * uint hi + uint lo"
    and payload: "payload = (if 256 * uint hi + uint lo = 30 then drop 29 tail
                             else take (nat (256 * uint hi + uint lo - 31)) (drop 29 tail))"
    and dec: "decode payload = Some payload_text"
    and nomatch: "search_end_tag payload_text = None"
  shows "read_app1_xmp decode fromstring seg_offset st =
           Inr (st\<lparr>pos := seg_offset + 4 + min 29 (length tail) + length payload,
                   out := out st @
                     (if [m1, m2] \<noteq> [0xFF, 0xE1]
                      then [Marker_expected_not_found ''APP1'' [m1, m2]] else []) @
                     [No_closing_tag_found]\<rparr>)"
proof -
  define o1 where "o1 = out st @ (if [m1, m2] \<noteq> [0xFF, 0xE1]
                      then [Marker_expected_not_found ''APP1'' [m1, m2]] else [])"
  define st1 where "st1 = st\<lparr>pos := seg_offset + 2, out := o1\<rparr>"
  define st2 where "st2 = st1\<lparr>pos := seg_offset + 4\<rparr>"
  define st3 where "st3 = st1\<lparr>pos := seg_offset + 4 + min 29 (length tail)\<rparr>"
  define st4 where "st4 = st1\<lparr>pos := seg_offset + 4 + min 29 (length tail) + length payload\<rparr>"
  have dr0: "drop seg_offset (data st) = [m1, m2] @ ([hi, lo] @ tail)"
    using d pre by simp
  have dr2: "drop (seg_offset + 2) (data st) = [hi, lo] @ tail"
    by (rule drop_app_eq [of _ "pre @ [m1, m2]"]) (simp_all add: d pre)
  have dr4: "drop (seg_offset + 4) (data st) = tail"
    by (rule drop_app_eq [of _ "pre @ [m1, m2, hi, lo]"]) (simp_all add: d pre)
  have "fh_read 2 (fh_seek seg_offset st) = ([m1, m2], (fh_seek seg_offset st)\<lparr>pos := pos (fh_seek seg_offset st) + 2\<rparr>)"
    by (rule fh_read_exact [where rest = "[hi, lo] @ tail"]) (simp_all add: fh_seek_def dr0)
  then have vm: "verify_marker ''APP1'' (fh_seek seg_offset st) = Inr st1"
    by (simp add: verify_marker_def fh_seek_def emit_def st1_def o1_def)
  have "fh_read 2 st1 = ([hi, lo], st1\<lparr>pos := pos st1 + 2\<rparr>)"
  proof (rule fh_read_exact [where rest = tail])
    show "drop (pos st1) (data st1) = [hi, lo] @ tail"
      using dr2 by (simp add: st1_def)
  qed simp
  then have r2: "fh_read 2 st1 = ([hi, lo], st2)"
    by (simp add: st1_def st2_def)
  have u: "unpack_uint BigEndian [hi, lo] = 256 * uint hi + uint lo"
    by (simp add: unpack_uint_def be_uint_def)
  have "fh_read 29 st2 = (take 29 tail, st2\<lparr>pos := pos st2 + length (take 29 tail)\<rparr>)"
    using dr4 by (simp add: fh_read_def st2_def st1_def)
  then have r3: "fh_read 29 st2 = (take 29 tail, st3)"
    by (simp add: st1_def st2_def st3_def min.commute)
  have dr5: "drop (pos st3) (data st3) = drop 29 tail"
  proof -
    have "drop (seg_offset + 4 + min 29 (length tail)) (data st)
        = drop (min 29 (length tail)) tail"
      using dr4 by (metis add.commute drop_drop)
    then show ?thesis
      by (simp add: min_def st3_def st1_def)
  qed
  have len3: "length (data st3) = length (data st)"
    by (simp add: st3_def st1_def)
  have upd: "st3\<lparr>pos := pos st3 + length payload\<rparr> = st4"
    by (simp add: st3_def st4_def st1_def)
  have fin: "emit [No_closing_tag_found] st4 =
      st\<lparr>pos := seg_offset + 4 + min 29 (length tail) + length payload,
         out := o1 @ [No_closing_tag_found]\<rparr>"
    by (simp add: st4_def st1_def emit_def)
  show ?thesis
  proof (cases "256 * uint hi + uint lo = 30")
    case True
    have "length (drop 29 tail) \<le> length (data st)"
      by (simp add: d)
    then have r4: "fh_read (length (data st3)) st3 = (payload, st4)"
      using True payload upd by (simp add: fh_read_def dr5 len3)
    show ?thesis
      unfolding read_app1_xmp_def o1_def [symmetric] append_assoc [symmetric]
      using True
      by (simp add: vm r2 u r3 r4 dec nomatch fin Let_def del: One_nat_def)
  next
    case False
    have r4: "fh_read (nat (256 * uint hi + uint lo - 31)) st3 = (payload, st4)"
      using False payload upd by (simp add: fh_read_def dr5)
    show ?thesis
      unfolding read_app1_xmp_def o1_def [symmetric] append_assoc [symmetric]
      using False ds r4
      by (simp add: vm r2 u r3 dec nomatch fin Let_def del: One_nat_def)
  qed
qed

theorem read_app1_xmp_no_closing_tag_witness:
  "read_app1_xmp (\<lambda>bs. Some (map (\<lambda>b. char_of (unat b)) bs)) (\<lambda>s. None) 2
     \<lparr>data = [0xFF, 0xD8] @ [0xFF, 0xE1, 0x00, 0x23] @
               (bytes_of ''http://ns.adobe.com/xap/1.0/'' @ [0x00] @ bytes_of ''<a/>''),
      pos = 0, out = [], meta_dict = Map.empty\<rparr>
   = Inr \<lparr>data = [0xFF, 0xD8] @ [0xFF, 0xE1, 0x00, 0x23] @
               (bytes_of ''http://ns.adobe.com/xap/1.0/'' @ [0x00] @ bytes_of ''<a/>''),
      pos = 39, out = [No_closing_tag_found], meta_dict = Map.empty\<rparr>"
proof -
  let ?tail = "bytes_of ''http://ns.adobe.com/xap/1.0/'' @ [0x00] @ bytes_of ''<a/>''"
  let ?st = "\<lparr>data = [0xFF, 0xD8] @ [0xFF, 0xE1, 0x00, 0x23] @ ?tail,
      pos = 0, out = [], meta_dict = Map.empty :: string \<rightharpoonup> (pyval \<times> string \<times> pyval \<times> pyval)\<rparr>"
  have 1: "data ?st = [0xFF, 0xD8] @ [0xFF, 0xE1, 0x00, 0x23] @ ?tail" by simp
  have 2: "length [0xFF, 0xD8 :: byte] = 2" by simp
  have 3: "30 \<le> 256 * uint (0x00 :: byte) + uint (0x23 :: byte)" by simp
  have 4: "bytes_of ''<a/>'' = (if 256 * uint (0x00 :: byte) + uint (0x23 :: byte) = 30 then drop 29 ?tail
        else take (nat (256 * uint (0x00 :: byte) + uint (0x23 :: byte) - 31)) (drop 29 ?tail))"
    by (simp add: bytes_of_def)
  have 5: "(\<lambda>bs. Some (map (\<lambda>b. char_of (unat b)) bs)) (bytes_of ''<a/>'') = Some ''<a/>''"
    by code_simp
  have 6: "search_end_tag ''<a/>'' = None"
    by (simp add: matches_end_tag_def)
  show ?thesis
    using read_app1_xmp_no_closing_tag
      [where decode = "\<lambda>bs. Some (map (\<lambda>b. char_of (unat b)) bs)"
         and fromstring = "\<lambda>s. None", OF 1 2 3 4 5 6]
    by (simp add: bytes_of_def)
qed

end
